theory Spec2Isabelle
  imports Complex_Main "HOL-Library.AList"
begin

section \<open>Numbers, errors and small vectors\<close>

text \<open>
  The simulation computes on C++ \<^verbatim>\<open>double\<close> and \<^verbatim>\<open>int\<close>. A \<^verbatim>\<open>double\<close> is modelled
  by a real number (no rounding), an \<^verbatim>\<open>int\<close> by an integer (the flags and counters of the
  modules stay far from the 32-bit range). A division whose denominator is zero produces
  no real number: it is the error \<open>NumericalError\<close>, so that a module result \<open>Inr\<close> has
  evaluated no such division.
\<close>

datatype error =
    KindMismatch
  | ImmutableParameter
  | DuplicateName
  | DuplicateIndex
  | NumericalError
  | BadEventIndex

definition bind_res :: "error + 'a \<Rightarrow> ('a \<Rightarrow> error + 'b) \<Rightarrow> error + 'b" where
  "bind_res r f = (case r of Inl e \<Rightarrow> Inl e | Inr x \<Rightarrow> f x)"

definition fdiv :: "real \<Rightarrow> real \<Rightarrow> error + real" where
  "fdiv x y = (if y = 0 then Inl NumericalError else Inr (x / y))"

text \<open>
  Modelled from the spec: the matrix class (\<^verbatim>\<open>Matrix\<close>, declared in the absent
  \<^verbatim>\<open>global_header.hpp\<close>). Section 4.1 gives fixed 3-vectors and 3x3 matrices with
  componentwise add and subtract, scalar multiply, matrix-vector multiply, the Euclidean
  norm (\<^verbatim>\<open>absolute()\<close>), the skew-symmetric matrix of a vector and the zero value a
  freshly constructed matrix holds.
\<close>

datatype vec3 = Vec3 (v0: real) (v1: real) (v2: real)

datatype mat3 = Mat3 (r0: vec3) (r1: vec3) (r2: vec3)

definition vzero :: vec3 where
  "vzero = Vec3 0 0 0"

definition vadd :: "vec3 \<Rightarrow> vec3 \<Rightarrow> vec3" where
  "vadd a b = Vec3 (v0 a + v0 b) (v1 a + v1 b) (v2 a + v2 b)"

definition vsub :: "vec3 \<Rightarrow> vec3 \<Rightarrow> vec3" where
  "vsub a b = Vec3 (v0 a - v0 b) (v1 a - v1 b) (v2 a - v2 b)"

definition vscale :: "vec3 \<Rightarrow> real \<Rightarrow> vec3" where
  "vscale a k = Vec3 (v0 a * k) (v1 a * k) (v2 a * k)"

definition vdot :: "vec3 \<Rightarrow> vec3 \<Rightarrow> real" where
  "vdot a b = v0 a * v0 b + v1 a * v1 b + v2 a * v2 b"

definition absolute :: "vec3 \<Rightarrow> real" where
  "absolute a = sqrt (v0 a * v0 a + v1 a * v1 a + v2 a * v2 a)"

definition skew_sym :: "vec3 \<Rightarrow> mat3" where
  "skew_sym a = Mat3 (Vec3 0 (- v2 a) (v1 a)) (Vec3 (v2 a) 0 (- v0 a)) (Vec3 (- v1 a) (v0 a) 0)"

definition mat_vec :: "mat3 \<Rightarrow> vec3 \<Rightarrow> vec3" where
  "mat_vec m a = Vec3 (vdot (r0 m) a) (vdot (r1 m) a) (vdot (r2 m) a)"

definition mzero :: mat3 where
  "mzero = Mat3 vzero vzero vzero"




section \<open>The variable store\<close>

text \<open>
  Modelled from the spec: the slot class (\<^verbatim>\<open>Variable\<close>, declared in the absent
  \<^verbatim>\<open>global_header.hpp\<close>) with its readers \<^verbatim>\<open>real()\<close>, \<^verbatim>\<open>integer()\<close>, \<^verbatim>\<open>vec()\<close>,
  \<^verbatim>\<open>mat()\<close> and writers \<^verbatim>\<open>gets\<close>, \<^verbatim>\<open>gets_int\<close>, \<^verbatim>\<open>gets_vec\<close>, \<^verbatim>\<open>gets_mat\<close>.
  Sections 3 and 4.2: a slot has a name, a kind with a current value of that kind, a
  definition, a module tag, a role tag and output tags; a typed read or write of a slot
  whose kind disagrees fails with \<open>KindMismatch\<close>; a write from a module to a
  \<open>data\<close> or \<open>init\<close> slot after the init phase fails with \<open>ImmutableParameter\<close>.
  The store is the index-addressed array; a position that no module defined is a slot
  of kind empty, here a position without an entry. A write checks the role before the
  kind. The reassignments of the event engine (section 4.5) respect the slot kind and
  are no module writes; neither are the assignments of the scenario loader.
\<close>

datatype kind = KEmpty | KInt | KReal | KVec | KMat

datatype val = VInt int | VReal real | VVec vec3 | VMat mat3

fun kind_of :: "val \<Rightarrow> kind" where
  "kind_of (VInt _) = KInt"
| "kind_of (VReal _) = KReal"
| "kind_of (VVec _) = KVec"
| "kind_of (VMat _) = KMat"

datatype role = Data | Init | State | Save | Out | Diag | Exec

record slot =
  slot_name :: string
  slot_val :: val
  slot_def :: string
  slot_mod :: string
  slot_role :: role
  slot_out :: string

type_synonym store = "(nat \<times> slot) list"

datatype writer = Loader | ModuleInit | ModuleExec | EventEngine

definition slot_kind :: "store \<Rightarrow> nat \<Rightarrow> kind" where
  "slot_kind st i = (case map_of st i of None \<Rightarrow> KEmpty | Some s \<Rightarrow> kind_of (slot_val s))"

definition define_slot :: "nat \<Rightarrow> val \<Rightarrow> string \<Rightarrow> string \<Rightarrow> string \<Rightarrow> role \<Rightarrow> string
    \<Rightarrow> store \<Rightarrow> error + store" where
  "define_slot i v nm df md rl ou st =
     (if nm \<in> set (map (\<lambda>p. slot_name (snd p)) st) then Inl DuplicateName
      else if i \<in> set (map fst st) then Inl DuplicateIndex
      else Inr (st @ [(i, \<lparr>slot_name = nm, slot_val = v, slot_def = df, slot_mod = md,
                            slot_role = rl, slot_out = ou\<rparr>)]))"

definition read_real :: "nat \<Rightarrow> store \<Rightarrow> error + real" where
  "read_real i st =
     (case map_of st i of
        None \<Rightarrow> Inl KindMismatch
      | Some s \<Rightarrow> (case slot_val s of VReal x \<Rightarrow> Inr x | _ \<Rightarrow> Inl KindMismatch))"

definition read_int :: "nat \<Rightarrow> store \<Rightarrow> error + int" where
  "read_int i st =
     (case map_of st i of
        None \<Rightarrow> Inl KindMismatch
      | Some s \<Rightarrow> (case slot_val s of VInt x \<Rightarrow> Inr x | _ \<Rightarrow> Inl KindMismatch))"

definition read_vec3 :: "nat \<Rightarrow> store \<Rightarrow> error + vec3" where
  "read_vec3 i st =
     (case map_of st i of
        None \<Rightarrow> Inl KindMismatch
      | Some s \<Rightarrow> (case slot_val s of VVec x \<Rightarrow> Inr x | _ \<Rightarrow> Inl KindMismatch))"

definition read_mat3 :: "nat \<Rightarrow> store \<Rightarrow> error + mat3" where
  "read_mat3 i st =
     (case map_of st i of
        None \<Rightarrow> Inl KindMismatch
      | Some s \<Rightarrow> (case slot_val s of VMat x \<Rightarrow> Inr x | _ \<Rightarrow> Inl KindMismatch))"

definition immutable_for :: "writer \<Rightarrow> role \<Rightarrow> bool" where
  "immutable_for w r = (w = ModuleExec \<and> (r = Data \<or> r = Init))"

definition write_val :: "writer \<Rightarrow> nat \<Rightarrow> val \<Rightarrow> store \<Rightarrow> error + store" where
  "write_val w i v st =
     (case map_of st i of
        None \<Rightarrow> Inl KindMismatch
      | Some s \<Rightarrow>
          if immutable_for w (slot_role s) then Inl ImmutableParameter
          else if kind_of (slot_val s) \<noteq> kind_of v then Inl KindMismatch
          else Inr (AList.update i (s\<lparr>slot_val := v\<rparr>) st))"

definition write_real :: "writer \<Rightarrow> nat \<Rightarrow> real \<Rightarrow> store \<Rightarrow> error + store" where
  "write_real w i x st = write_val w i (VReal x) st"

definition write_int :: "writer \<Rightarrow> nat \<Rightarrow> int \<Rightarrow> store \<Rightarrow> error + store" where
  "write_int w i x st = write_val w i (VInt x) st"

definition write_vec3 :: "writer \<Rightarrow> nat \<Rightarrow> vec3 \<Rightarrow> store \<Rightarrow> error + store" where
  "write_vec3 w i x st = write_val w i (VVec x) st"

definition write_mat3 :: "writer \<Rightarrow> nat \<Rightarrow> mat3 \<Rightarrow> store \<Rightarrow> error + store" where
  "write_mat3 w i x st = write_val w i (VMat x) st"

text \<open>A slot that the writer \<open>w\<close> may overwrite with a value of kind \<open>k\<close>.\<close>

definition writable :: "writer \<Rightarrow> kind \<Rightarrow> store \<Rightarrow> nat \<Rightarrow> bool" where
  "writable w k st i =
     (case map_of st i of
        None \<Rightarrow> False
      | Some s \<Rightarrow> \<not> immutable_for w (slot_role s) \<and> kind_of (slot_val s) = k)"

section \<open>Termination module (sims/MyProjectile/build/termination.cpp)\<close>

text \<open>
  \<^verbatim>\<open>Ball::termination\<close>: the four checks are four separate \<^verbatim>\<open>if\<close> statements, each
  assigning \<^verbatim>\<open>stop\<close> and \<^verbatim>\<open>lconv\<close>; the two flags are written back with
  \<^verbatim>\<open>gets_int\<close>.
\<close>

definition termination_module :: "real \<Rightarrow> store \<Rightarrow> error + store" where
  "termination_module int_step st =
     bind_res (read_real 7 st) (\<lambda>endtime.
     bind_res (read_real 8 st) (\<lambda>min_alt.
     bind_res (read_real 9 st) (\<lambda>min_range.
     bind_res (read_real 0 st) (\<lambda>time.
     bind_res (read_real 22 st) (\<lambda>altitude.
     bind_res (read_real 80 st) (\<lambda>dta.
     bind_res (read_int 162 st) (\<lambda>intercept_flag.
       let stop = (0::int);
           lconv = (0::int);
           (stop, lconv) = (if time \<ge> endtime then (1, 1) else (stop, lconv));
           (stop, lconv) = (if altitude \<le> min_alt then (1, 2) else (stop, lconv));
           (stop, lconv) = (if dta \<le> min_range \<and> dta > 0 then (1, 3) else (stop, lconv));
           (stop, lconv) = (if intercept_flag = 1 then (1, 4) else (stop, lconv))
       in bind_res (write_int ModuleExec 5 stop st) (\<lambda>st1.
          write_int ModuleExec 6 lconv st1))))))))"

text \<open>
  The stop predicates of the module in the order of the source, each with its reason
  code, as truth values at the inputs read.
\<close>

definition stop_predicates ::
    "real \<Rightarrow> real \<Rightarrow> real \<Rightarrow> real \<Rightarrow> real \<Rightarrow> real \<Rightarrow> int \<Rightarrow> (bool \<times> int) list" where
  "stop_predicates endtime min_alt min_range time altitude dta intercept_flag =
     [(time \<ge> endtime, 1), (altitude \<le> min_alt, 2),
      (dta \<le> min_range \<and> dta > 0, 3), (intercept_flag = 1, 4)]"

text \<open>
  The reason code as the specification words it (section 3, termination descriptor:
  the first satisfied predicate wins), and as the last satisfied one; 0 when none is.
\<close>

definition first_satisfied_reason :: "(bool \<times> int) list \<Rightarrow> int" where
  "first_satisfied_reason ps = (case filter fst ps of [] \<Rightarrow> 0 | p # _ \<Rightarrow> snd p)"

definition last_satisfied_reason :: "(bool \<times> int) list \<Rightarrow> int" where
  "last_satisfied_reason ps = (case rev (filter fst ps) of [] \<Rightarrow> 0 | p # _ \<Rightarrow> snd p)"

text \<open>A store for the termination module: the slots it reads and the two flags.\<close>

definition real_slot :: "string \<Rightarrow> role \<Rightarrow> real \<Rightarrow> slot" where
  "real_slot nm rl x = \<lparr>slot_name = nm, slot_val = VReal x, slot_def = [], slot_mod = [],
     slot_role = rl, slot_out = []\<rparr>"

definition int_slot :: "string \<Rightarrow> role \<Rightarrow> int \<Rightarrow> slot" where
  "int_slot nm rl x = \<lparr>slot_name = nm, slot_val = VInt x, slot_def = [], slot_mod = [],
     slot_role = rl, slot_out = []\<rparr>"

definition vec_slot :: "string \<Rightarrow> role \<Rightarrow> vec3 \<Rightarrow> slot" where
  "vec_slot nm rl x = \<lparr>slot_name = nm, slot_val = VVec x, slot_def = [], slot_mod = [],
     slot_role = rl, slot_out = []\<rparr>"

definition term_store :: "real \<Rightarrow> real \<Rightarrow> real \<Rightarrow> real \<Rightarrow> real \<Rightarrow> real \<Rightarrow> int \<Rightarrow> store" where
  "term_store endtime min_alt min_range time altitude dta intercept_flag =
     [(0, real_slot ''time'' Exec time),
      (5, int_slot ''stop'' Exec 0),
      (6, int_slot ''lconv'' Exec 0),
      (7, real_slot ''endtime'' Data endtime),
      (8, real_slot ''min_alt'' Data min_alt),
      (9, real_slot ''min_range'' Data min_range),
      (22, real_slot ''altitude'' Out altitude),
      (80, real_slot ''dta'' Out dta),
      (162, int_slot ''intercept_flag'' Out intercept_flag)]"

section \<open>Integrators\<close>



section \<open>Flat-Earth kinematics (components/kinematics/kinematics_3dof_flat.cpp)\<close>

text \<open>
  \<^verbatim>\<open>Vehicle::kinematics\<close>: velocity and position are advanced by the two assignments
  \<^verbatim>\<open>VBEL = VBEL + ABEL * int_step\<close> and \<^verbatim>\<open>SBEL = SBEL + VBEL * int_step\<close>, then the
  ground test resets altitude, the down component of the position and the velocity.
\<close>

definition kinematics :: "real \<Rightarrow> store \<Rightarrow> error + store" where
  "kinematics int_step st =
     bind_res (read_vec3 14 st) (\<lambda>FSPB.
     bind_res (read_vec3 21 st) (\<lambda>VBEL.
     bind_res (read_vec3 20 st) (\<lambda>SBEL.
       let ABEL = FSPB;
           VBEL = vadd VBEL (vscale ABEL int_step);
           SBEL = vadd SBEL (vscale VBEL int_step);
           altitude = - v2 SBEL;
           (altitude, SBEL, VBEL) =
             (if altitude \<le> 0 then (0, Vec3 (v0 SBEL) (v1 SBEL) 0, vzero)
              else (altitude, SBEL, VBEL))
       in bind_res (write_vec3 ModuleExec 20 SBEL st) (\<lambda>st1.
          bind_res (write_vec3 ModuleExec 21 VBEL st1) (\<lambda>st2.
          write_real ModuleExec 22 altitude st2)))))"

text \<open>
  \<^verbatim>\<open>Ball::kinematics\<close> of the BALL3 example (example/BALL3/kinematics.cpp) has the
  same body on the array \<^verbatim>\<open>ball\<close>.
\<close>

definition ball_kinematics :: "real \<Rightarrow> store \<Rightarrow> error + store" where
  "ball_kinematics int_step st =
     bind_res (read_vec3 14 st) (\<lambda>FSPB.
     bind_res (read_vec3 21 st) (\<lambda>VBEL.
     bind_res (read_vec3 20 st) (\<lambda>SBEL.
       let ABEL = FSPB;
           VBEL = vadd VBEL (vscale ABEL int_step);
           SBEL = vadd SBEL (vscale VBEL int_step);
           altitude = - v2 SBEL;
           (altitude, SBEL, VBEL) =
             (if altitude \<le> 0 then (0, Vec3 (v0 SBEL) (v1 SBEL) 0, vzero)
              else (altitude, SBEL, VBEL))
       in bind_res (write_vec3 ModuleExec 20 SBEL st) (\<lambda>st1.
          bind_res (write_vec3 ModuleExec 21 VBEL st1) (\<lambda>st2.
          write_real ModuleExec 22 altitude st2)))))"

text \<open>A store for the kinematics module: specific force, position, velocity, altitude.\<close>

definition kin_store :: "vec3 \<Rightarrow> vec3 \<Rightarrow> vec3 \<Rightarrow> store" where
  "kin_store FSPB SBEL VBEL =
     [(14, vec_slot ''FSPB'' Out FSPB),
      (20, vec_slot ''SBEL'' State SBEL),
      (21, vec_slot ''VBEL'' State VBEL),
      (22, real_slot ''altitude'' Out 0)]"

section \<open>First-order actuator (components/control/actuator_first_order.cpp)\<close>




section \<open>Store after a successful write\<close>

text \<open>The store a successful write returns: the slot's value replaced, all else kept.\<close>

definition put_val :: "nat \<Rightarrow> val \<Rightarrow> store \<Rightarrow> store" where
  "put_val i v st = AList.update i ((the (map_of st i))\<lparr>slot_val := v\<rparr>) st"

section \<open>Drag and gravity (components/aerodynamics/drag_simple.cpp)\<close>

text \<open>
  \<^verbatim>\<open>Vehicle::forces\<close> of the component library: speed from the velocity in slot 21,
  the unit vector of the velocity guarded by \<^verbatim>\<open>dvbe > 0.1\<close>, drag against the
  velocity and gravity subtracted from the third component.
\<close>

definition forces :: "real \<Rightarrow> store \<Rightarrow> error + store" where
  "forces int_step st =
     bind_res (read_real 10 st) (\<lambda>cd.
     bind_res (read_real 11 st) (\<lambda>area.
     bind_res (read_real 0 st) (\<lambda>grav.
     bind_res (read_real 12 st) (\<lambda>rho.
     bind_res (read_vec3 21 st) (\<lambda>VBEL.
       let dvbe = absolute VBEL;
           drag_mag = 0.5 * rho * dvbe * dvbe * cd * area
       in
     bind_res (if dvbe > 0.1
               then bind_res (fdiv 1.0 dvbe) (\<lambda>k. Inr (vscale VBEL k))
               else Inr vzero) (\<lambda>VBEL_unit.
       let FSPB = Vec3 (- drag_mag * v0 VBEL_unit)
                       (- drag_mag * v1 VBEL_unit)
                       (- drag_mag * v2 VBEL_unit - grav)
       in
     bind_res (write_real ModuleExec 13 dvbe st) (\<lambda>st1.
     write_vec3 ModuleExec 14 FSPB st1)))))))"

definition drag_store :: "real \<Rightarrow> real \<Rightarrow> real \<Rightarrow> real \<Rightarrow> vec3 \<Rightarrow> vec3 \<Rightarrow> store" where
  "drag_store grav cd area rho SBEL VBEL =
     [(0, real_slot ''grav'' Out grav),
      (10, real_slot ''cd'' Data cd),
      (11, real_slot ''area'' Data area),
      (12, real_slot ''rho'' Diag rho),
      (13, real_slot ''dvbe'' Out 0),
      (14, vec_slot ''FSPB'' Out vzero),
      (20, vec_slot ''SBEL'' State SBEL),
      (21, vec_slot ''VBEL'' State VBEL)]"

section \<open>Perfect seeker (components/sensors/seeker_perfect.cpp)\<close>

text \<open>
  \<^verbatim>\<open>Vehicle::seeker\<close>: range and line-of-sight unit vector guarded by
  \<^verbatim>\<open>dta > 0.1\<close>, closing speed, time-to-go guarded by \<^verbatim>\<open>fabs(dvta) > 0.1\<close>, and
  the line-of-sight rate guarded by \<^verbatim>\<open>dta > 0.1\<close> again.
\<close>

definition seeker :: "real \<Rightarrow> store \<Rightarrow> error + store" where
  "seeker int_step st =
     bind_res (read_vec3 20 st) (\<lambda>SAEL.
     bind_res (read_vec3 21 st) (\<lambda>VAEL.
     bind_res (read_vec3 200 st) (\<lambda>STEL.
     bind_res (read_vec3 201 st) (\<lambda>VTEL.
       let STAL = vsub STEL SAEL;
           dta = absolute STAL
       in
     bind_res (if dta > 0.1
               then bind_res (fdiv 1.0 dta) (\<lambda>dum. Inr (vscale STAL dum))
               else Inr vzero) (\<lambda>UTAL.
       let VTAEL = vsub VTEL VAEL;
           dvta = - (vdot UTAL VTAEL)
       in
     bind_res (if \<bar>dvta\<bar> > 0.1 then fdiv dta \<bar>dvta\<bar> else Inr 0) (\<lambda>tgo.
     bind_res (if dta > 0.1
               then bind_res (fdiv 1.0 dta)
                      (\<lambda>dum. Inr (vscale (mat_vec (skew_sym UTAL) VTAEL) dum))
               else Inr vzero) (\<lambda>WOEA.
       let UTAA = UTAL in
     bind_res (write_real ModuleExec 80 dta st) (\<lambda>st1.
     bind_res (write_real ModuleExec 81 dvta st1) (\<lambda>st2.
     bind_res (write_real ModuleExec 82 tgo st2) (\<lambda>st3.
     bind_res (write_vec3 ModuleExec 87 UTAA st3) (\<lambda>st4.
     bind_res (write_vec3 ModuleExec 88 WOEA st4) (\<lambda>st5.
     write_vec3 ModuleExec 89 STAL st5))))))))))))"

definition seeker_store :: "vec3 \<Rightarrow> vec3 \<Rightarrow> vec3 \<Rightarrow> vec3 \<Rightarrow> store" where
  "seeker_store SAEL VAEL STEL VTEL =
     [(20, vec_slot ''SAEL'' State SAEL),
      (21, vec_slot ''VAEL'' State VAEL),
      (80, real_slot ''dta'' Out 0),
      (81, real_slot ''dvta'' Out 0),
      (82, real_slot ''tgo'' Out 0),
      (87, vec_slot ''UTAA'' Out vzero),
      (88, vec_slot ''WOEA'' Out vzero),
      (89, vec_slot ''STAL'' Out vzero),
      (200, vec_slot ''STEL'' Out STEL),
      (201, vec_slot ''VTEL'' Out VTEL)]"

section \<open>The two BALL3 forces modules\<close>

text \<open>
  \<^verbatim>\<open>Ball::forces\<close> of the BALL3 example (example/BALL3/forces.cpp): the vector it calls
  \<^verbatim>\<open>VBEL\<close> is read from slot 20, the density is the constant 1.225 (written back to
  slot 12), the unit vector is guarded by \<^verbatim>\<open>dvbe > 0.1\<close>, gravity is subtracted.
\<close>

definition ball_forces :: "real \<Rightarrow> store \<Rightarrow> error + store" where
  "ball_forces int_step st =
     bind_res (read_real 10 st) (\<lambda>cd.
     bind_res (read_real 11 st) (\<lambda>area.
     bind_res (read_real 0 st) (\<lambda>grav.
     bind_res (read_vec3 20 st) (\<lambda>VBEL.
       let rho = 1.225;
           dvbe = absolute VBEL;
           drag_mag = 0.5 * rho * dvbe * dvbe * cd * area
       in
     bind_res (if dvbe > 0.1
               then bind_res (fdiv 1.0 dvbe) (\<lambda>k. Inr (vscale VBEL k))
               else Inr vzero) (\<lambda>VBEL_unit.
       let FSPB = Vec3 (- drag_mag * v0 VBEL_unit)
                       (- drag_mag * v1 VBEL_unit)
                       (- drag_mag * v2 VBEL_unit - grav)
       in
     bind_res (write_real ModuleExec 12 rho st) (\<lambda>st1.
     bind_res (write_real ModuleExec 13 dvbe st1) (\<lambda>st2.
     write_vec3 ModuleExec 14 FSPB st2)))))))"

text \<open>
  \<^verbatim>\<open>Ball::forces\<close> of the regression set (tests/regression/BALL3/forces.cpp): the
  density is read from slot 12 and the velocity from slot 21, the speed is written at
  once, the drag is computed under \<^verbatim>\<open>dvbe > 0.01\<close> into a vector that starts as
  zero, gravity is added.
\<close>

definition regression_forces :: "real \<Rightarrow> store \<Rightarrow> error + store" where
  "regression_forces int_step st =
     bind_res (read_real 10 st) (\<lambda>cd.
     bind_res (read_real 11 st) (\<lambda>area.
     bind_res (read_real 0 st) (\<lambda>grav.
     bind_res (read_real 12 st) (\<lambda>rho.
     bind_res (read_vec3 21 st) (\<lambda>VBEL.
       let dvbe = absolute VBEL in
     bind_res (write_real ModuleExec 13 dvbe st) (\<lambda>st1.
     bind_res (if dvbe > 0.01
               then (let q = 0.5 * rho * dvbe * dvbe in
                     bind_res (fdiv (- 1.0) dvbe) (\<lambda>k.
                       let drag_dir = vscale VBEL k;
                           FDRAG = vscale drag_dir (q * cd * area / 1.0)
                       in Inr FDRAG))
               else Inr vzero) (\<lambda>FSPB.
       let FSPB = Vec3 (v0 FSPB) (v1 FSPB) (v2 FSPB + grav) in
     write_vec3 ModuleExec 14 FSPB st1)))))))"

section \<open>Event engine (example/BALL3/ball_functions.cpp)\<close>

text \<open>
  Modelled from the spec: the event class (\<^verbatim>\<open>Event\<close>, declared in the absent
  \<^verbatim>\<open>global_header.hpp\<close>). Section 3: an event has a watched slot, a relation, a
  threshold value and an assignment list of (slot-index, new-value) pairs. The watched
  slot, a pointer into the array in the source, is its index here; the relation is the
  character read from the scenario.
\<close>

record event_rec =
  watch :: nat
  oper :: char
  crit :: real
  rotor :: "(nat \<times> real) list"

text \<open>
  The members of \<^verbatim>\<open>Ball\<close> that \<^verbatim>\<open>Ball::event\<close> uses: the slot array, the event
  list, the number \<^verbatim>\<open>nevent\<close> of the event watched next, the count
  \<^verbatim>\<open>event_total\<close> and the flag \<^verbatim>\<open>event_epoch\<close>. The two counters start at 0 and
  are only incremented or reset to 0, so they are natural numbers here.
\<close>

record ball =
  ball_store :: store
  event_ptr_list :: "event_rec list"
  nevent :: nat
  event_total :: nat
  event_epoch :: bool

text \<open>
  The cast \<^verbatim>\<open>(int)x\<close> of a double to the 32-bit \<^verbatim>\<open>int\<close>: truncation towards
  zero. For a value whose truncation lies outside the range of \<^verbatim>\<open>int\<close> the cast is
  undefined in C++; the conversion instruction of the x86 target then gives the smallest
  \<^verbatim>\<open>int\<close>, and so does the model.
\<close>

definition to_int :: "real \<Rightarrow> int" where
  "to_int x =
     (let t = (if x \<ge> 0 then \<lfloor>x\<rfloor> else \<lceil>x\<rceil>)
      in if - 2147483648 \<le> t \<and> t \<le> 2147483647 then t else - 2147483648)"

text \<open>
  The test of the event criterion (lines 739-794): the watched value and the critical
  value are compared as integers when the watched slot has type \<^verbatim>\<open>int\<close>, as reals
  otherwise; a relation other than \<^verbatim>\<open><\<close>, \<^verbatim>\<open>=\<close>, \<^verbatim>\<open>>\<close> never holds.
\<close>

definition event_condition :: "store \<Rightarrow> event_rec \<Rightarrow> error + bool" where
  "event_condition st ev =
     (let crit_value = crit ev;
          intest = (slot_kind st (watch ev) = KInt)
      in
      bind_res (if intest
                then bind_res (read_int (watch ev) st) (\<lambda>i. Inr (0, i, to_int crit_value))
                else bind_res (read_real (watch ev) st) (\<lambda>x. Inr (x, 0, 0)))
        (\<lambda>(current_value, current_value_int, crit_value_int).
           Inr (if oper ev = CHR ''<''
                then (if intest then current_value_int < crit_value_int
                      else current_value < crit_value)
                else if oper ev = CHR ''=''
                then (if intest then current_value_int = crit_value_int
                      else current_value = crit_value)
                else if oper ev = CHR ''>''
                then (if intest then current_value_int > crit_value_int
                      else current_value > crit_value)
                else False)))"

text \<open>
  The loop that loads the new values (lines 810-822): for a slot of type \<^verbatim>\<open>int\<close> the
  converted value is written with \<^verbatim>\<open>gets(value_int)\<close>; the statement
  \<^verbatim>\<open>ball[index].gets(value)\<close> that follows the \<^verbatim>\<open>if\<close> block has no \<^verbatim>\<open>else\<close> and
  runs for every slot.
\<close>

fun load_rotor :: "(nat \<times> real) list \<Rightarrow> store \<Rightarrow> error + store" where
  "load_rotor [] st = Inr st"
| "load_rotor ((index, rvalue) # rest) st =
     bind_res (if slot_kind st index = KInt
               then write_int EventEngine index (to_int rvalue) st
               else Inr st) (\<lambda>st1.
     bind_res (write_real EventEngine index rvalue st1) (\<lambda>st2.
     load_rotor rest st2))"

text \<open>
  \<^verbatim>\<open>Ball::event\<close>. Reading the event list at a position it does not have is the
  error \<open>BadEventIndex\<close>. The text printed to the console is left out; the read of
  the time in slot 0 for that text is kept.
\<close>

definition event :: "ball \<Rightarrow> error + ball" where
  "event b0 =
     (let b = b0\<lparr>event_epoch := False\<rparr> in
      if event_total b = 0 then Inr b
      else if nevent b \<ge> length (event_ptr_list b) then Inl BadEventIndex
      else
        let ev = event_ptr_list b ! nevent b in
        bind_res (event_condition (ball_store b) ev) (\<lambda>occurred.
          if occurred
          then bind_res (load_rotor (rotor ev) (ball_store b)) (\<lambda>st.
               bind_res (read_real 0 st) (\<lambda>time.
                 let n = nevent b + 1 in
                 Inr (b\<lparr>ball_store := st, event_epoch := True, nevent := n,
                        event_total := (if n = event_total b then 0 else event_total b)\<rparr>)))
          else Inr b))"

text \<open>
  A run of the event engine over the steps of a simulation: before each call the modules
  of the step have changed the store in some way \<open>m\<close>; a failed call ends the run. The
  trace lists, for every call that tested an event, the number of that event and whether
  it fired.
\<close>

fun event_trace :: "(store \<Rightarrow> store) list \<Rightarrow> ball \<Rightarrow> (nat \<times> bool) list" where
  "event_trace [] b = []"
| "event_trace (m # ms) b =
     (case event (b\<lparr>ball_store := m (ball_store b)\<rparr>) of
        Inl e \<Rightarrow> []
      | Inr b' \<Rightarrow> (if event_total b = 0 then [] else [(nevent b, event_epoch b')])
                  @ event_trace ms b')"

text \<open>A vehicle with a clock, an altitude, a real parameter and an integer flag.\<close>

definition ev_store :: "real \<Rightarrow> real \<Rightarrow> store" where
  "ev_store time altitude =
     [(0, real_slot ''time'' Exec time),
      (10, real_slot ''cd'' Data (1 / 10)),
      (22, real_slot ''altitude'' Out altitude),
      (30, int_slot ''mode'' Data 0)]"

definition ev_ball :: "store \<Rightarrow> event_rec list \<Rightarrow> ball" where
  "ev_ball st evs = \<lparr>ball_store = st, event_ptr_list = evs, nevent = 0,
     event_total = length evs, event_epoch = False\<rparr>"

section \<open>Propulsion with staging (components/propulsion/propulsion_staging.cpp)\<close>



text \<open>
  \<^verbatim>\<open>Vehicle::def_propulsion\<close>: the slots of the module with their kind, initial value,
  definition, module tag, role tag and output tags, in the order of the source.
\<close>

definition def_propulsion :: "store \<Rightarrow> error + store" where
  "def_propulsion st =
     bind_res (define_slot 10 (VInt 0) ''mprop''
         ''=0:none; =3 input; =4 LTG control''
         ''propulsion'' Data '''' st) (\<lambda>st1.
     bind_res (define_slot 11 (VReal 0) ''acowl''
         ''Cowl area of engine inlet - m^2''
         ''propulsion'' Data '''' st1) (\<lambda>st2.
     bind_res (define_slot 15 (VReal 0) ''vmass''
         ''Vehicle mass - kg''
         ''propulsion'' Out ''scrn,plot'' st2) (\<lambda>st3.
     bind_res (define_slot 16 (VReal 0) ''vmass0''
         ''Initial gross mass - kg''
         ''propulsion'' Data '''' st3) (\<lambda>st4.
     bind_res (define_slot 17 (VReal 0) ''xcg''
         ''CG location from nose (pos) - m''
         ''propulsion'' Out ''plot'' st4) (\<lambda>st5.
     bind_res (define_slot 18 (VMat mzero) ''IBBB''
         ''Vehicle moment of inertia - kgm^2''
         ''propulsion'' Out '''' st5) (\<lambda>st6.
     bind_res (define_slot 21 (VReal 0) ''fmass0''
         ''Initial fuel mass in stage - kg''
         ''propulsion'' Data '''' st6) (\<lambda>st7.
     bind_res (define_slot 22 (VReal 0) ''fmasse''
         ''Fuel mass expended (zero initialization required) - kg''
         ''propulsion'' State ''scrn,plot'' st7) (\<lambda>st8.
     bind_res (define_slot 23 (VReal 0) ''fmassd''
         ''Fuel mass expended derivative - kg/s''
         ''propulsion'' State '''' st8) (\<lambda>st9.
     bind_res (define_slot 24 (VReal 0) ''aexit''
         ''Nozzle exit area - m^2''
         ''propulsion'' Data '''' st9) (\<lambda>st10.
     bind_res (define_slot 25 (VReal 0) ''spi''
         ''Specific impulse - sec''
         ''propulsion'' Data '''' st10) (\<lambda>st11.
     bind_res (define_slot 26 (VReal 0) ''thrust''
         ''Thrust - N''
         ''propulsion'' Out ''scrn,plot'' st11) (\<lambda>st12.
     bind_res (define_slot 27 (VReal 0) ''fmassr''
         ''Remaining fuel mass - kg''
         ''propulsion'' Save ''scrn,plot'' st12) (\<lambda>st13.
     bind_res (define_slot 28 (VReal 0) ''xcg_0''
         ''Initial cg location from nose - m''
         ''propulsion'' Data '''' st13) (\<lambda>st14.
     bind_res (define_slot 29 (VReal 0) ''xcg_1''
         ''Final cg location from nose - m''
         ''propulsion'' Data '''' st14) (\<lambda>st15.
     bind_res (define_slot 33 (VReal 0) ''fuel_flow_rate''
         ''Fuel flow rate of rocket motor - kg/s''
         ''propulsion'' Data '''' st15) (\<lambda>st16.
     bind_res (define_slot 36 (VReal 0) ''vmass0_st''
         ''Initial mass of exo-vehicle - kg''
         ''propulsion'' Data '''' st16) (\<lambda>st17.
     bind_res (define_slot 37 (VReal 0) ''fmass0_st''
         ''Initial fuel mass of exo-vehicle - kg''
         ''propulsion'' Data '''' st17) (\<lambda>st18.
     bind_res (define_slot 38 (VReal 0) ''moi_roll_0''
         ''Roll MOI of vehicle, initial - kgm^2''
         ''propulsion'' Data '''' st18) (\<lambda>st19.
     bind_res (define_slot 39 (VReal 0) ''moi_roll_1''
         ''Roll MOI of vehicle, burn-out - kgm^2''
         ''propulsion'' Data '''' st19) (\<lambda>st20.
     bind_res (define_slot 40 (VReal 0) ''moi_trans_0''
         ''Transverse MOI of vehicle, initial - kgm^2''
         ''propulsion'' Data '''' st20) (\<lambda>st21.
     bind_res (define_slot 41 (VReal 0) ''moi_trans_1''
         ''Transverse MOI of vehicle, burn-out - kgm^2''
         ''propulsion'' Data '''' st21) (\<lambda>st22.
     bind_res (define_slot 42 (VInt 0) ''mfreeze_prop''
         (''Saving '' @ [CHR 0x27] @ ''mfreeze'' @ [CHR 0x27] @ '' value'')
         ''propulsion'' Save '''' st22) (\<lambda>st23.
     bind_res (define_slot 43 (VReal 0) ''thrustf''
         ''Saved thrust when mfreeze=1 - N ''
         ''propulsion'' Save '''' st23) (\<lambda>st24.
     bind_res (define_slot 44 (VReal 0) ''vmassf''
         ''Saved mass when mfreeze=1 - N ''
         ''propulsion'' Save '''' st24) (\<lambda>st25.
     define_slot 45 (VMat mzero) ''IBBBF''
         ''Saved MOI when mfreeze=1 - kgm^2''
         ''propulsion'' Save '''' st25)))))))))))))))))))))))))"







text \<open>The role tag of the slot at a position, if the position holds a slot.\<close>

definition slot_role_at :: "store \<Rightarrow> nat \<Rightarrow> role option" where
  "slot_role_at st i = map_option slot_role (map_of st i)"






section \<open>Store lemmas\<close>

lemma bind_res_Inr [simp]: "bind_res (Inr x) f = f x"
  by (simp add: bind_res_def)

lemma bind_res_Inl [simp]: "bind_res (Inl e) f = Inl e"
  by (simp add: bind_res_def)

lemma write_val_writable:
  "writable w (kind_of v) st i \<Longrightarrow> write_val w i v st = Inr (put_val i v st)"
  by (auto simp: writable_def write_val_def put_val_def split: option.splits)

lemma writable_put_val:
  "j \<noteq> i \<Longrightarrow> writable w k (put_val i v st) j = writable w k st j"
  by (simp add: writable_def put_val_def update_conv')

lemma read_real_put_val:
  "read_real j (put_val i v st) =
     (if j = i then (case v of VReal x \<Rightarrow> Inr x | _ \<Rightarrow> Inl KindMismatch) else read_real j st)"
  by (simp add: read_real_def put_val_def update_conv')

lemma read_int_put_val:
  "read_int j (put_val i v st) =
     (if j = i then (case v of VInt x \<Rightarrow> Inr x | _ \<Rightarrow> Inl KindMismatch) else read_int j st)"
  by (simp add: read_int_def put_val_def update_conv')

lemma read_vec3_put_val:
  "read_vec3 j (put_val i v st) =
     (if j = i then (case v of VVec x \<Rightarrow> Inr x | _ \<Rightarrow> Inl KindMismatch) else read_vec3 j st)"
  by (simp add: read_vec3_def put_val_def update_conv')

lemma read_mat3_put_val:
  "read_mat3 j (put_val i v st) =
     (if j = i then (case v of VMat x \<Rightarrow> Inr x | _ \<Rightarrow> Inl KindMismatch) else read_mat3 j st)"
  by (simp add: read_mat3_def put_val_def update_conv')

lemmas write_simps = write_real_def write_int_def write_vec3_def write_mat3_def
  write_val_writable writable_put_val read_real_put_val read_int_put_val
  read_vec3_put_val read_mat3_put_val

section \<open>Termination engine: reason code and stop flag\<close>

lemma termination_result:
  assumes "read_real 7 st = Inr endtime" and "read_real 8 st = Inr min_alt"
    and "read_real 9 st = Inr min_range" and "read_real 0 st = Inr time"
    and "read_real 22 st = Inr altitude" and "read_real 80 st = Inr dta"
    and "read_int 162 st = Inr intercept_flag"
    and "writable ModuleExec KInt st 5" and "writable ModuleExec KInt st 6"
  shows "\<exists>st'. termination_module int_step st = Inr st' \<and>
           read_int 5 st' = Inr (if time \<ge> endtime \<or> altitude \<le> min_alt \<or>
                                    (dta \<le> min_range \<and> dta > 0) \<or> intercept_flag = 1
                                 then 1 else 0) \<and>
           read_int 6 st' = Inr (if intercept_flag = 1 then 4
                                 else if dta \<le> min_range \<and> dta > 0 then 3
                                 else if altitude \<le> min_alt then 2
                                 else if time \<ge> endtime then 1 else 0)"
  using assms
  by (simp add: termination_module_def write_simps Let_def)

lemmas store_eval =
  read_real_def read_int_def read_vec3_def read_mat3_def write_real_def write_int_def
  write_vec3_def write_mat3_def write_val_def writable_def immutable_for_def
  real_slot_def int_slot_def vec_slot_def

text \<open>
  Claim C1, as amended: when termination runs on a store whose inputs can be read and
  whose two flags can be written, the reason code it records is that of the last
  satisfied stop predicate in the order time limit, ground impact, proximity, intercept:
  each later satisfied check overwrites the code of an earlier one.
\<close>

theorem termination_records_last_satisfied:
  assumes "read_real 7 st = Inr endtime" and "read_real 8 st = Inr min_alt"
    and "read_real 9 st = Inr min_range" and "read_real 0 st = Inr time"
    and "read_real 22 st = Inr altitude" and "read_real 80 st = Inr dta"
    and "read_int 162 st = Inr intercept_flag"
    and "writable ModuleExec KInt st 5" and "writable ModuleExec KInt st 6"
  shows "\<exists>st'. termination_module int_step st = Inr st' \<and>
           read_int 6 st' = Inr (last_satisfied_reason
             (stop_predicates endtime min_alt min_range time altitude dta intercept_flag))"
proof -
  have code: "last_satisfied_reason
      (stop_predicates endtime min_alt min_range time altitude dta intercept_flag) =
      (if intercept_flag = 1 then 4 else if dta \<le> min_range \<and> dta > 0 then 3
       else if altitude \<le> min_alt then 2 else if time \<ge> endtime then 1 else 0)"
    by (simp add: last_satisfied_reason_def stop_predicates_def)
  from termination_result [OF assms, of int_step] show ?thesis
    unfolding code by blast
qed

theorem termination_records_last_satisfied_witness:
  "\<exists>st'. termination_module (1 / 100) (term_store 10 0 10 12 (- 1) 100 0) = Inr st' \<and>
     read_int 6 st' = Inr (last_satisfied_reason (stop_predicates 10 0 10 12 (- 1) 100 0))"
proof -
  let ?S = "term_store 10 0 10 12 (- 1) 100 0"
  have r: "read_real 7 ?S = Inr 10" "read_real 8 ?S = Inr 0" "read_real 9 ?S = Inr 10"
    "read_real 0 ?S = Inr 12" "read_real 22 ?S = Inr (- 1)" "read_real 80 ?S = Inr 100"
    "read_int 162 ?S = Inr 0"
    by (simp_all add: term_store_def store_eval)
  have w: "writable ModuleExec KInt ?S 5" "writable ModuleExec KInt ?S 6"
    by (simp_all add: term_store_def store_eval)
  show ?thesis
    by (rule termination_records_last_satisfied [OF r w])
qed

text \<open>
  Counterexample to claim C1 as stated: at time 12 with end time 10 and altitude -1 with
  minimum altitude 0, the time limit (code 1) and the ground impact (code 2) are both
  satisfied; the first satisfied predicate is the time limit, the code recorded is 2.
\<close>

theorem termination_first_satisfied_counterexample:
  "bind_res (termination_module (1 / 100) (term_store 10 0 10 12 (- 1) 100 0)) (read_int 6)
     = Inr 2 \<and>
   first_satisfied_reason (stop_predicates 10 0 10 12 (- 1) 100 0) = 1 \<and>
   map fst (stop_predicates 10 0 10 12 (- 1) 100 0) = [True, True, False, False]"
  by (simp add: termination_module_def term_store_def store_eval
      first_satisfied_reason_def stop_predicates_def)

text \<open>
  Claim C6, as amended: whenever termination sets the stop flag to 1 the recorded reason
  code is one of 1 (time limit), 2 (ground impact), 3 (proximity), 4 (intercept); and
  the stop flag is set to 1 exactly when time >= endtime, or altitude <= min_alt, or the
  range to target is positive and <= min_range, or intercept_flag = 1; otherwise it is 0.
\<close>

theorem termination_stop_and_reason:
  assumes "read_real 7 st = Inr endtime" and "read_real 8 st = Inr min_alt"
    and "read_real 9 st = Inr min_range" and "read_real 0 st = Inr time"
    and "read_real 22 st = Inr altitude" and "read_real 80 st = Inr dta"
    and "read_int 162 st = Inr intercept_flag"
    and "writable ModuleExec KInt st 5" and "writable ModuleExec KInt st 6"
  shows "\<exists>st' stop lconv. termination_module int_step st = Inr st' \<and>
           read_int 5 st' = Inr stop \<and> read_int 6 st' = Inr lconv \<and>
           (stop = 0 \<or> stop = 1) \<and>
           (stop = 1 \<longrightarrow> lconv \<in> {1, 2, 3, 4}) \<and>
           (stop = 1 \<longleftrightarrow> time \<ge> endtime \<or> altitude \<le> min_alt \<or>
              (0 < dta \<and> dta \<le> min_range) \<or> intercept_flag = 1)"
proof -
  from termination_result [OF assms, of int_step] obtain st' where
    run: "termination_module int_step st = Inr st'" and
    stop: "read_int 5 st' = Inr (if time \<ge> endtime \<or> altitude \<le> min_alt \<or>
              (dta \<le> min_range \<and> dta > 0) \<or> intercept_flag = 1 then 1 else 0)" and
    lconv: "read_int 6 st' = Inr (if intercept_flag = 1 then 4
              else if dta \<le> min_range \<and> dta > 0 then 3
              else if altitude \<le> min_alt then 2
              else if time \<ge> endtime then 1 else 0)"
    by blast
  show ?thesis
    apply (rule exI [of _ st'])
    apply (rule exI [of _ "if time \<ge> endtime \<or> altitude \<le> min_alt \<or>
              (dta \<le> min_range \<and> dta > 0) \<or> intercept_flag = 1 then 1 else 0"])
    apply (rule exI [of _ "if intercept_flag = 1 then 4
              else if dta \<le> min_range \<and> dta > 0 then 3
              else if altitude \<le> min_alt then 2
              else if time \<ge> endtime then 1 else 0"])
    using run stop lconv by auto
qed

theorem termination_stop_and_reason_witness:
  "\<exists>st' stop lconv. termination_module (1 / 100) (term_store 10 0 10 3 (- 1) 0 0) = Inr st' \<and>
     read_int 5 st' = Inr stop \<and> read_int 6 st' = Inr lconv \<and>
     (stop = 0 \<or> stop = 1) \<and>
     (stop = 1 \<longrightarrow> lconv \<in> {1, 2, 3, 4}) \<and>
     (stop = 1 \<longleftrightarrow> (3::real) \<ge> 10 \<or> (- 1::real) \<le> 0 \<or>
        (0 < (0::real) \<and> (0::real) \<le> 10) \<or> (0::int) = 1)"
proof -
  let ?S = "term_store 10 0 10 3 (- 1) 0 0"
  have r: "read_real 7 ?S = Inr 10" "read_real 8 ?S = Inr 0" "read_real 9 ?S = Inr 10"
    "read_real 0 ?S = Inr 3" "read_real 22 ?S = Inr (- 1)" "read_real 80 ?S = Inr 0"
    "read_int 162 ?S = Inr 0"
    by (simp_all add: term_store_def store_eval)
  have w: "writable ModuleExec KInt ?S 5" "writable ModuleExec KInt ?S 6"
    by (simp_all add: term_store_def store_eval)
  show ?thesis
    by (rule termination_stop_and_reason [OF r w])
qed

text \<open>
  Counterexample to claim C6 as stated: with range to target 0 and min_range 10 the
  condition range <= min_range holds, and no other stop condition does; the stop flag
  written is 0.
\<close>

theorem termination_proximity_counterexample:
  "bind_res (termination_module (1 / 100) (term_store 10 0 10 3 100 0 0)) (read_int 5)
     = Inr 0 \<and> (0::real) \<le> 10"
  by (simp add: termination_module_def term_store_def store_eval)

section \<open>Kinematics and actuator: what a step writes\<close>


lemma kinematics_result:
  assumes "read_vec3 14 st = Inr FSPB" and "read_vec3 21 st = Inr VBEL"
    and "read_vec3 20 st = Inr SBEL"
    and "writable ModuleExec KVec st 20" and "writable ModuleExec KVec st 21"
    and "writable ModuleExec KReal st 22"
  shows "\<exists>st'. kinematics h st = Inr st' \<and> ball_kinematics h st = Inr st' \<and>
     read_vec3 20 st' = Inr (let V1 = vadd VBEL (vscale FSPB h); S1 = vadd SBEL (vscale V1 h) in
        if - v2 S1 \<le> 0 then Vec3 (v0 S1) (v1 S1) 0 else S1) \<and>
     read_vec3 21 st' = Inr (let V1 = vadd VBEL (vscale FSPB h); S1 = vadd SBEL (vscale V1 h) in
        if - v2 S1 \<le> 0 then vzero else V1) \<and>
     read_real 22 st' = Inr (let V1 = vadd VBEL (vscale FSPB h); S1 = vadd SBEL (vscale V1 h) in
        if - v2 S1 \<le> 0 then 0 else - v2 S1)"
  using assms
  by (simp add: kinematics_def ball_kinematics_def write_simps Let_def)


text \<open>
  Claim C9: after the flat-Earth kinematics exec phase (component library and BALL3
  example alike) the altitude slot holds a value >= 0, equal to minus the down component
  of the stored position; whenever the freshly integrated position yields altitude <= 0
  the module writes altitude 0, the down component 0 and the zero velocity vector.
\<close>

theorem kinematics_altitude_nonneg:
  assumes "read_vec3 14 st = Inr FSPB" and "read_vec3 21 st = Inr VBEL"
    and "read_vec3 20 st = Inr SBEL"
    and "writable ModuleExec KVec st 20" and "writable ModuleExec KVec st 21"
    and "writable ModuleExec KReal st 22"
  shows "\<exists>st' alt pos. kinematics h st = Inr st' \<and> ball_kinematics h st = Inr st' \<and>
     read_real 22 st' = Inr alt \<and> read_vec3 20 st' = Inr pos \<and>
     0 \<le> alt \<and> alt = - v2 pos \<and>
     (- v2 (vadd SBEL (vscale (vadd VBEL (vscale FSPB h)) h)) \<le> 0 \<longrightarrow>
        alt = 0 \<and> v2 pos = 0 \<and> read_vec3 21 st' = Inr vzero)"
proof -
  define S1 where "S1 = vadd SBEL (vscale (vadd VBEL (vscale FSPB h)) h)"
  from kinematics_result [OF assms, of h] obtain st' where
    run: "kinematics h st = Inr st'" "ball_kinematics h st = Inr st'" and
    pos: "read_vec3 20 st' = Inr (if - v2 S1 \<le> 0 then Vec3 (v0 S1) (v1 S1) 0 else S1)" and
    vel: "read_vec3 21 st' = Inr (if - v2 S1 \<le> 0 then vzero
            else vadd VBEL (vscale FSPB h))" and
    alt: "read_real 22 st' = Inr (if - v2 S1 \<le> 0 then 0 else - v2 S1)"
    unfolding S1_def Let_def by blast
  show ?thesis
  proof (intro exI conjI)
    show "kinematics h st = Inr st'" by (rule run)
    show "ball_kinematics h st = Inr st'" by (rule run)
    show "read_real 22 st' = Inr (if - v2 S1 \<le> 0 then 0 else - v2 S1)" by (rule alt)
    show "read_vec3 20 st' = Inr (if - v2 S1 \<le> 0 then Vec3 (v0 S1) (v1 S1) 0 else S1)"
      by (rule pos)
    show "0 \<le> (if - v2 S1 \<le> 0 then 0 else - v2 S1)" by simp
    show "(if - v2 S1 \<le> 0 then 0 else - v2 S1) =
        - v2 (if - v2 S1 \<le> 0 then Vec3 (v0 S1) (v1 S1) 0 else S1)" by simp
    show "- v2 (vadd SBEL (vscale (vadd VBEL (vscale FSPB h)) h)) \<le> 0 \<longrightarrow>
        (if - v2 S1 \<le> 0 then 0 else - v2 S1) = 0 \<and>
        v2 (if - v2 S1 \<le> 0 then Vec3 (v0 S1) (v1 S1) 0 else S1) = 0 \<and>
        read_vec3 21 st' = Inr vzero"
      using vel by (simp add: S1_def)
  qed
qed

theorem kinematics_altitude_nonneg_witness:
  "\<exists>st' alt pos. kinematics 1 (kin_store (Vec3 0 0 10) (Vec3 0 0 (- 5)) (Vec3 3 0 0)) = Inr st' \<and>
     ball_kinematics 1 (kin_store (Vec3 0 0 10) (Vec3 0 0 (- 5)) (Vec3 3 0 0)) = Inr st' \<and>
     read_real 22 st' = Inr alt \<and> read_vec3 20 st' = Inr pos \<and>
     0 \<le> alt \<and> alt = - v2 pos \<and>
     (- v2 (vadd (Vec3 0 0 (- 5)) (vscale (vadd (Vec3 3 0 0) (vscale (Vec3 0 0 10) 1)) 1)) \<le> 0 \<longrightarrow>
        alt = 0 \<and> v2 pos = 0 \<and> read_vec3 21 st' = Inr vzero)"
proof -
  let ?S = "kin_store (Vec3 0 0 10) (Vec3 0 0 (- 5)) (Vec3 3 0 0)"
  have r: "read_vec3 14 ?S = Inr (Vec3 0 0 10)" "read_vec3 21 ?S = Inr (Vec3 3 0 0)"
    "read_vec3 20 ?S = Inr (Vec3 0 0 (- 5))"
    by (simp_all add: kin_store_def store_eval)
  have w: "writable ModuleExec KVec ?S 20" "writable ModuleExec KVec ?S 21"
    "writable ModuleExec KReal ?S 22"
    by (simp_all add: kin_store_def store_eval)
  show ?thesis
    by (rule kinematics_altitude_nonneg [OF r w])
qed




section \<open>Guarded unit vectors in the drag and seeker modules\<close>

text \<open>
  Claim C7: when the speed dvbe (in the seeker: the range dta) has absolute value below
  0.1, the drag and the seeker computations use the zero vector as unit vector of the
  velocity (of the line of sight): both modules return a result, so no division by the
  speed or the range was evaluated, the specific force is gravity alone, and the seeker
  writes the zero line-of-sight vector, the zero line-of-sight rate, closing speed 0 and
  time-to-go 0.
\<close>

theorem small_norm_zero_unit_vector:
  assumes "read_real 10 st = Inr cd" and "read_real 11 st = Inr area"
    and "read_real 0 st = Inr grav" and "read_real 12 st = Inr rho"
    and "read_vec3 21 st = Inr VBEL"
    and "writable ModuleExec KReal st 13" and "writable ModuleExec KVec st 14"
    and "\<bar>absolute VBEL\<bar> < 0.1"
    and "read_vec3 20 ss = Inr SAEL" and "read_vec3 21 ss = Inr VAEL"
    and "read_vec3 200 ss = Inr STEL" and "read_vec3 201 ss = Inr VTEL"
    and "writable ModuleExec KReal ss 80" and "writable ModuleExec KReal ss 81"
    and "writable ModuleExec KReal ss 82" and "writable ModuleExec KVec ss 87"
    and "writable ModuleExec KVec ss 88" and "writable ModuleExec KVec ss 89"
    and "\<bar>absolute (vsub STEL SAEL)\<bar> < 0.1"
  shows "\<exists>st' ss'. forces h st = Inr st' \<and> seeker h ss = Inr ss' \<and>
     read_real 13 st' = Inr (absolute VBEL) \<and>
     read_vec3 14 st' = Inr (Vec3 0 0 (- grav)) \<and>
     read_real 80 ss' = Inr (absolute (vsub STEL SAEL)) \<and>
     read_vec3 87 ss' = Inr vzero \<and>
     read_vec3 88 ss' = Inr vzero \<and>
     read_real 81 ss' = Inr 0 \<and>
     read_real 82 ss' = Inr 0"
proof -
  have nb: "\<not> 0.1 < absolute VBEL" "\<not> 0.1 < absolute (vsub STEL SAEL)"
    using assms(8,19) by linarith+
  have f: "\<exists>st'. forces h st = Inr st' \<and> read_real 13 st' = Inr (absolute VBEL) \<and>
     read_vec3 14 st' = Inr (Vec3 0 0 (- grav))"
    using assms(1-7) nb by (simp add: forces_def write_simps Let_def vzero_def)
  have s: "\<exists>ss'. seeker h ss = Inr ss' \<and>
     read_real 80 ss' = Inr (absolute (vsub STEL SAEL)) \<and>
     read_vec3 87 ss' = Inr vzero \<and> read_vec3 88 ss' = Inr vzero \<and>
     read_real 81 ss' = Inr 0 \<and> read_real 82 ss' = Inr 0"
    using assms(9-18) nb by (simp add: seeker_def write_simps Let_def vzero_def vdot_def)
  from f s show ?thesis by blast
qed

theorem small_norm_zero_unit_vector_witness:
  "\<exists>st' ss'. forces (1 / 100) (drag_store 10 (1 / 2) 1 1 (Vec3 0 0 (- 5)) (Vec3 0 0 0)) = Inr st' \<and>
     seeker (1 / 100) (seeker_store (Vec3 1 2 3) (Vec3 4 0 0) (Vec3 1 2 3) (Vec3 0 5 0)) = Inr ss' \<and>
     read_real 13 st' = Inr 0 \<and>
     read_vec3 14 st' = Inr (Vec3 0 0 (- 10)) \<and>
     read_real 80 ss' = Inr 0 \<and>
     read_vec3 87 ss' = Inr vzero \<and>
     read_vec3 88 ss' = Inr vzero \<and>
     read_real 81 ss' = Inr 0 \<and>
     read_real 82 ss' = Inr 0"
proof -
  let ?D = "drag_store 10 (1 / 2) 1 1 (Vec3 0 0 (- 5)) (Vec3 0 0 0)"
  let ?S = "seeker_store (Vec3 1 2 3) (Vec3 4 0 0) (Vec3 1 2 3) (Vec3 0 5 0)"
  have rd: "read_real 10 ?D = Inr (1 / 2)" "read_real 11 ?D = Inr 1"
    "read_real 0 ?D = Inr 10" "read_real 12 ?D = Inr 1" "read_vec3 21 ?D = Inr (Vec3 0 0 0)"
    by (simp_all add: drag_store_def store_eval)
  have wd: "writable ModuleExec KReal ?D 13" "writable ModuleExec KVec ?D 14"
    by (simp_all add: drag_store_def store_eval)
  have nd: "\<bar>absolute (Vec3 0 0 0)\<bar> < 0.1"
    by (simp add: absolute_def)
  have rs: "read_vec3 20 ?S = Inr (Vec3 1 2 3)" "read_vec3 21 ?S = Inr (Vec3 4 0 0)"
    "read_vec3 200 ?S = Inr (Vec3 1 2 3)" "read_vec3 201 ?S = Inr (Vec3 0 5 0)"
    by (simp_all add: seeker_store_def store_eval)
  have ws: "writable ModuleExec KReal ?S 80" "writable ModuleExec KReal ?S 81"
    "writable ModuleExec KReal ?S 82" "writable ModuleExec KVec ?S 87"
    "writable ModuleExec KVec ?S 88" "writable ModuleExec KVec ?S 89"
    by (simp_all add: seeker_store_def store_eval)
  have ns: "\<bar>absolute (vsub (Vec3 1 2 3) (Vec3 1 2 3))\<bar> < 0.1"
    by (simp add: absolute_def vsub_def)
  from small_norm_zero_unit_vector [OF rd wd nd rs ws ns, of "1 / 100"] show ?thesis
    by (simp add: absolute_def vsub_def)
qed

section \<open>The BALL3 example forces module against the regression one\<close>

text \<open>
  Claim C10, as amended: on a store in which slots 20 and 21 hold the same vector (the
  example reads its velocity from slot 20, the regression module from slot 21), both exec
  implementations write the same speed dvbe to slot 13; and when either that speed
  exceeds 0.1 and slot 12 holds the density 1.225 that the example uses, or the speed is
  at most 0.01, both write the same first and second component of the specific force.
\<close>

theorem ball3_forces_agreement:
  assumes "read_real 10 st = Inr cd" and "read_real 11 st = Inr area"
    and "read_real 0 st = Inr grav" and "read_real 12 st = Inr rho"
    and "read_vec3 20 st = Inr V" and "read_vec3 21 st = Inr V"
    and "writable ModuleExec KReal st 12" and "writable ModuleExec KReal st 13"
    and "writable ModuleExec KVec st 14"
  shows "\<exists>sa sb fa fb. ball_forces h st = Inr sa \<and> regression_forces h st = Inr sb \<and>
     read_real 13 sa = Inr (absolute V) \<and> read_real 13 sb = Inr (absolute V) \<and>
     read_vec3 14 sa = Inr fa \<and> read_vec3 14 sb = Inr fb \<and>
     ((absolute V > 0.1 \<and> rho = 1.225) \<or> absolute V \<le> 0.01 \<longrightarrow>
        v0 fa = v0 fb \<and> v1 fa = v1 fb)"
proof (cases "absolute V > 0.1")
  case True
  then have nz: "absolute V \<noteq> 0" and big: "absolute V > 0.01" by auto
  show ?thesis
    using assms True nz big
    by (simp add: ball_forces_def regression_forces_def write_simps Let_def fdiv_def
        vscale_def)
next
  case False
  show ?thesis
  proof (cases "absolute V > 0.01")
    case True
    then have nz: "absolute V \<noteq> 0" by auto
    show ?thesis
      using assms False True nz
      by (simp add: ball_forces_def regression_forces_def write_simps Let_def fdiv_def
        vscale_def vzero_def)
  next
    case small: False
    show ?thesis
      using assms False small
      by (simp add: ball_forces_def regression_forces_def write_simps Let_def fdiv_def
        vscale_def vzero_def)
  qed
qed

lemma absolute_3_0_4: "absolute (Vec3 3 0 4) = 5"
  unfolding absolute_def by (rule real_sqrt_unique) simp_all

theorem ball3_forces_agreement_witness:
  "\<exists>sa sb fa fb.
     ball_forces (1 / 100)
       (drag_store 10 (1 / 2) 1 (1225 / 1000) (Vec3 3 0 4) (Vec3 3 0 4)) = Inr sa \<and>
     regression_forces (1 / 100)
       (drag_store 10 (1 / 2) 1 (1225 / 1000) (Vec3 3 0 4) (Vec3 3 0 4)) = Inr sb \<and>
     read_real 13 sa = Inr 5 \<and> read_real 13 sb = Inr 5 \<and>
     read_vec3 14 sa = Inr fa \<and> read_vec3 14 sb = Inr fb \<and>
     v0 fa = v0 fb \<and> v1 fa = v1 fb"
proof -
  let ?D = "drag_store 10 (1 / 2) 1 (1225 / 1000) (Vec3 3 0 4) (Vec3 3 0 4)"
  have rd: "read_real 10 ?D = Inr (1 / 2)" "read_real 11 ?D = Inr 1"
    "read_real 0 ?D = Inr 10" "read_real 12 ?D = Inr (1225 / 1000)"
    "read_vec3 20 ?D = Inr (Vec3 3 0 4)" "read_vec3 21 ?D = Inr (Vec3 3 0 4)"
    by (simp_all add: drag_store_def store_eval)
  have wd: "writable ModuleExec KReal ?D 12" "writable ModuleExec KReal ?D 13"
    "writable ModuleExec KVec ?D 14"
    by (simp_all add: drag_store_def store_eval)
  from ball3_forces_agreement [OF rd wd, of "1 / 100"] show ?thesis
    by (simp add: absolute_3_0_4)
qed

text \<open>
  Counterexample to claim C10 as stated: on one store with gravity 10, density 1.225,
  position and velocity zero, the example writes the specific force (0, 0, -10) and the
  regression module writes (0, 0, 10).
\<close>

theorem ball3_forces_equivalence_counterexample:
  "bind_res (ball_forces (1 / 100) (drag_store 10 (1 / 2) 1 (1225 / 1000) (Vec3 0 0 0) (Vec3 0 0 0)))
      (read_vec3 14) = Inr (Vec3 0 0 (- 10)) \<and>
   bind_res (regression_forces (1 / 100) (drag_store 10 (1 / 2) 1 (1225 / 1000) (Vec3 0 0 0) (Vec3 0 0 0)))
      (read_vec3 14) = Inr (Vec3 0 0 10)"
  by (simp add: ball_forces_def regression_forces_def drag_store_def store_eval
      absolute_def vzero_def Let_def)

section \<open>Event engine: what a call tests and fires\<close>

lemma bind_res_eq_Inr:
  "bind_res r f = Inr y \<longleftrightarrow> (\<exists>x. r = Inr x \<and> f x = Inr y)"
  by (cases r) simp_all

lemma event_counters:
  assumes "event b = Inr b'"
  shows "event_ptr_list b' = event_ptr_list b \<and>
         (if event_epoch b' then nevent b' = Suc (nevent b) \<and> event_total b \<noteq> 0
          else nevent b' = nevent b \<and> ball_store b' = ball_store b \<and>
               event_total b' = event_total b)"
  using assms
  by (auto simp: event_def Let_def bind_res_eq_Inr split: if_splits)

lemma event_trace_lower_bound:
  "p \<in> set (event_trace ms b) \<Longrightarrow> nevent b \<le> fst p"
proof (induction ms arbitrary: b)
  case Nil
  then show ?case by simp
next
  case (Cons m ms)
  let ?b = "b\<lparr>ball_store := m (ball_store b)\<rparr>"
  show ?case
  proof (cases "event ?b")
    case (Inl e)
    with Cons.prems show ?thesis by simp
  next
    case (Inr b')
    from event_counters [OF Inr] have mono: "nevent b \<le> nevent b'"
      by (auto split: if_splits)
    from Cons.prems Inr have "p = (nevent b, event_epoch b') \<or> p \<in> set (event_trace ms b')"
      by (auto split: if_splits)
    then show ?thesis
    proof
      assume "p = (nevent b, event_epoch b')"
      then show ?thesis by simp
    next
      assume "p \<in> set (event_trace ms b')"
      from Cons.IH [OF this] mono show ?thesis by simp
    qed
  qed
qed

lemma event_trace_after_fire:
  assumes "event b = Inr b'" and "event_epoch b'"
    and "p \<in> set (event_trace ms b')"
  shows "nevent b < fst p"
proof -
  from event_counters [OF assms(1)] assms(2) have "nevent b' = Suc (nevent b)" by simp
  with event_trace_lower_bound [OF assms(3)] show ?thesis by simp
qed

text \<open>
  Claim C5: over a run, whatever the modules do to the store between the calls, the
  numbers of the events tested never decrease, and after a call in which an event fired
  every later call tests an event of a strictly larger number: a fired event is never
  tested again and its reassignments are never applied again, so every event fires at
  most once.
\<close>

theorem event_fires_at_most_once:
  "sorted_wrt (\<lambda>p q. if snd p then fst p < fst q else fst p \<le> fst q) (event_trace ms b) \<and>
   distinct (map fst (filter snd (event_trace ms b)))"
proof (induction ms arbitrary: b)
  case Nil
  show ?case by simp
next
  case (Cons m ms)
  let ?b = "b\<lparr>ball_store := m (ball_store b)\<rparr>"
  show ?case
  proof (cases "event ?b")
    case (Inl e)
    then show ?thesis by simp
  next
    case (Inr b')
    from event_counters [OF Inr] have mono: "nevent b \<le> nevent b'"
      by (auto split: if_splits)
    have later: "nevent b \<le> fst p" if "p \<in> set (event_trace ms b')" for p
      using event_trace_lower_bound [OF that] mono by simp
    have strict: "nevent b < fst p" if "event_epoch b'" "p \<in> set (event_trace ms b')" for p
      using event_trace_after_fire [OF Inr that] by simp
    have notin: "nevent b \<notin> fst ` set (filter snd (event_trace ms b'))" if "event_epoch b'"
      using strict [OF that] by force
    from Cons.IH [of b'] Inr later strict notin show ?thesis
      by (auto simp: sorted_wrt_append)
  qed
qed


theorem event_fires_at_most_once_witness:
  "event_trace [id, id, id]
     (ev_ball (ev_store 1 50)
        [\<lparr>watch = 22, oper = CHR ''<'', crit = 100, rotor = [(10, 1)]\<rparr>,
         \<lparr>watch = 0, oper = CHR ''>'', crit = 5, rotor = [(10, 2)]\<rparr>])
     = [(0, True), (1, False), (1, False)] \<and>
   sorted_wrt (\<lambda>p q. if snd p then fst p < fst q else fst p \<le> fst q)
     (event_trace [id, id, id]
       (ev_ball (ev_store 1 50)
        [\<lparr>watch = 22, oper = CHR ''<'', crit = 100, rotor = [(10, 1)]\<rparr>,
         \<lparr>watch = 0, oper = CHR ''>'', crit = 5, rotor = [(10, 2)]\<rparr>]))"
proof -
  let ?B = "ev_ball (ev_store 1 50)
        [\<lparr>watch = 22, oper = CHR ''<'', crit = 100, rotor = [(10, 1)]\<rparr>,
         \<lparr>watch = 0, oper = CHR ''>'', crit = 5, rotor = [(10, 2)]\<rparr>]"
  have "event_trace [id, id, id] ?B = [(0, True), (1, False), (1, False)]"
    by (simp add: ev_ball_def ev_store_def event_def event_condition_def slot_kind_def
        store_eval Let_def)
  with event_fires_at_most_once [of "[id, id, id]" ?B] show ?thesis by simp
qed

text \<open>
  Claim C8: a call of the event engine looks only at the event of number nevent, the
  earliest declared one that has not fired. Replacing any later event by any other event
  (one whose condition holds, say) changes nothing in the result of the call; after the
  call the later event has still not fired; if an event fired it is the one of number
  nevent, with its reassignments loaded, and if none fired the store is unchanged.
\<close>

theorem event_tests_only_earliest_armed:
  assumes "nevent b < j"
  shows "event (b\<lparr>event_ptr_list := (event_ptr_list b)[j := e]\<rparr>) =
           map_sum id (\<lambda>b'. b'\<lparr>event_ptr_list := (event_ptr_list b)[j := e]\<rparr>) (event b) \<and>
         (\<forall>b'. event b = Inr b' \<longrightarrow>
            nevent b' \<le> j \<and>
            (event_epoch b' \<longrightarrow> nevent b' = Suc (nevent b) \<and>
               load_rotor (rotor (event_ptr_list b ! nevent b)) (ball_store b)
                 = Inr (ball_store b')) \<and>
            (\<not> event_epoch b' \<longrightarrow> nevent b' = nevent b \<and> ball_store b' = ball_store b))"
proof (intro conjI allI impI)
  have nth: "(event_ptr_list b)[j := e] ! nevent b = event_ptr_list b ! nevent b"
    using assms by simp
  show "event (b\<lparr>event_ptr_list := (event_ptr_list b)[j := e]\<rparr>) =
           map_sum id (\<lambda>b'. b'\<lparr>event_ptr_list := (event_ptr_list b)[j := e]\<rparr>) (event b)"
    by (simp add: event_def Let_def nth bind_res_def split: sum.splits)
next
  fix b' assume run: "event b = Inr b'"
  from event_counters [OF run] assms show "nevent b' \<le> j"
    by (auto split: if_splits)
next
  fix b' assume run: "event b = Inr b'" and ep: "event_epoch b'"
  from event_counters [OF run] ep show "nevent b' = Suc (nevent b)" by simp
next
  fix b' assume run: "event b = Inr b'" and ep: "event_epoch b'"
  from run ep show "load_rotor (rotor (event_ptr_list b ! nevent b)) (ball_store b)
                 = Inr (ball_store b')"
    by (auto simp: event_def Let_def bind_res_eq_Inr split: if_splits)
next
  fix b' assume run: "event b = Inr b'" and ep: "\<not> event_epoch b'"
  from event_counters [OF run] ep show "nevent b' = nevent b" by simp
next
  fix b' assume run: "event b = Inr b'" and ep: "\<not> event_epoch b'"
  from event_counters [OF run] ep show "ball_store b' = ball_store b" by simp
qed


theorem event_tests_only_earliest_armed_witness:
  "event_condition (ev_store 1 50)
      \<lparr>watch = 22, oper = CHR ''<'', crit = 100, rotor = [(10, 1)]\<rparr> = Inr True \<and>
   event (ev_ball (ev_store 1 50)
      [\<lparr>watch = 0, oper = CHR ''>'', crit = 5, rotor = [(10, 2)]\<rparr>,
       \<lparr>watch = 22, oper = CHR ''<'', crit = 100, rotor = [(10, 1)]\<rparr>])
     = Inr (ev_ball (ev_store 1 50)
      [\<lparr>watch = 0, oper = CHR ''>'', crit = 5, rotor = [(10, 2)]\<rparr>,
       \<lparr>watch = 22, oper = CHR ''<'', crit = 100, rotor = [(10, 1)]\<rparr>]) \<and>
   event (ev_ball (ev_store 1 50)
      [\<lparr>watch = 0, oper = CHR ''>'', crit = 5, rotor = [(10, 2)]\<rparr>,
       \<lparr>watch = 22, oper = CHR ''>'', crit = 100, rotor = [(10, 1)]\<rparr>])
     = Inr (ev_ball (ev_store 1 50)
      [\<lparr>watch = 0, oper = CHR ''>'', crit = 5, rotor = [(10, 2)]\<rparr>,
       \<lparr>watch = 22, oper = CHR ''>'', crit = 100, rotor = [(10, 1)]\<rparr>])"
proof -
  let ?e0 = "\<lparr>watch = 0, oper = CHR ''>'', crit = 5, rotor = [(10, 2)]\<rparr>"
  let ?e1 = "\<lparr>watch = 22, oper = CHR ''<'', crit = 100, rotor = [(10, 1)]\<rparr>"
  let ?e2 = "\<lparr>watch = 22, oper = CHR ''>'', crit = 100, rotor = [(10, 1)]\<rparr>"
  let ?B = "ev_ball (ev_store 1 50) [?e0, ?e1]"
  have c: "event_condition (ev_store 1 50) ?e1 = Inr True"
    by (simp add: ev_store_def event_condition_def slot_kind_def store_eval Let_def)
  have run: "event ?B = Inr ?B"
    by (simp add: ev_ball_def ev_store_def event_def event_condition_def slot_kind_def
        store_eval Let_def)
  have h: "nevent ?B < 1"
    by (simp add: ev_ball_def)
  from event_tests_only_earliest_armed [OF h, of ?e2] run
  have "event (?B\<lparr>event_ptr_list := (event_ptr_list ?B)[1 := ?e2]\<rparr>) =
      Inr (?B\<lparr>event_ptr_list := (event_ptr_list ?B)[1 := ?e2]\<rparr>)"
    by simp
  then have "event (ev_ball (ev_store 1 50) [?e0, ?e2]) = Inr (ev_ball (ev_store 1 50) [?e0, ?e2])"
    by (simp add: ev_ball_def)
  with c run show ?thesis by simp
qed

text \<open>
  Claim C4 at a concrete event: the event that sets the integer slot 30 to 1 when the
  altitude falls below 100. Firing first writes the converted value 1 to the slot, then
  writes the real 1 to the same integer slot; that second write is a kind mismatch, so
  loading the reassignments fails and with it the whole call.
\<close>

theorem event_integer_reassignment_fails:
  "bind_res (write_int EventEngine 30 (to_int 1) (ev_store 1 50)) (read_int 30) = Inr 1 \<and>
   bind_res (write_int EventEngine 30 (to_int 1) (ev_store 1 50))
     (write_real EventEngine 30 1) = Inl KindMismatch \<and>
   load_rotor [(30, 1)] (ev_store 1 50) = Inl KindMismatch \<and>
   event (ev_ball (ev_store 1 50)
      [\<lparr>watch = 22, oper = CHR ''<'', crit = 100, rotor = [(30, 1)]\<rparr>])
     = Inl KindMismatch"
  by (simp add: ev_ball_def ev_store_def event_def event_condition_def slot_kind_def
      store_eval Let_def to_int_def)

section \<open>Immutable parameters and the propulsion module\<close>



lemma define_slot_map_of:
  assumes "define_slot i v nm df md rl ou st = Inr st'"
  shows "map_of st' = (map_of st)(i \<mapsto> \<lparr>slot_name = nm, slot_val = v, slot_def = df,
           slot_mod = md, slot_role = rl, slot_out = ou\<rparr>)"
proof -
  from assms have fresh: "i \<notin> fst ` set st" and
    st': "st' = st @ [(i, \<lparr>slot_name = nm, slot_val = v, slot_def = df,
           slot_mod = md, slot_role = rl, slot_out = ou\<rparr>)]"
    by (auto simp: define_slot_def split: if_splits)
  from fresh have "map_of st i = None"
    by (simp add: map_of_eq_None_iff)
  then show ?thesis
    unfolding st' by (auto simp: map_add_def fun_eq_iff split: option.splits)
qed

lemma def_propulsion_declares:
  assumes "def_propulsion st = Inr st'"
  shows "slot_role_at st' 10 = Some Data \<and> slot_kind st' 10 = KInt \<and>
         writable ModuleExec KReal st' 22 \<and> writable ModuleExec KReal st' 23"
  using assms
  apply (simp add: def_propulsion_def bind_res_eq_Inr)
  apply (elim exE conjE)
  apply (drule define_slot_map_of)+
  apply (simp add: slot_role_at_def slot_kind_def writable_def immutable_for_def)
  done














end
